theory Spec2Isabelle
  imports Main "HOL-Library.Word" "HOL-Library.Sublist" "HOL-Library.Signed_Division"
begin

section \<open>The flashbot relay client (flashbot.go)\<close>

text \<open>
  A shallow embedding of the package \<open>flashbot\<close>. A Go \<open>string\<close> and a Go \<open>[]byte\<close> are
  both sequences of bytes and are both modelled by \<^typ>\<open>string\<close> (a list of 8-bit
  characters), so that \<open>string(b)\<close> and \<open>[]byte(s)\<close> are the identity. A Go \<open>uint64\<close> is a
  \<^typ>\<open>64 word\<close>. A Go \<open>int\<close> or \<open>int64\<close> is an \<^typ>\<open>int\<close>: the program only compares
  such values, prints them and divides one of them by 100, so no operation can overflow
  (\<open>int\<close> is taken to be 64 bits wide, which makes the conversion \<open>int(self.netID)\<close> the
  identity).
\<close>

subsection \<open>Errors of github.com/pkg/errors\<close>

text \<open>
  \<open>errors.New(msg)\<close> and \<open>errors.Errorf(format, ...)\<close> make an error from a text,
  \<open>errors.Wrap(err, msg)\<close> keeps the cause \<open>err\<close> and prefixes the text. Errors that come
  from a library (the HTTP client, the JSON codec, the signer) are values of the same type.
\<close>

datatype error = errors_New string | errors_Wrap error string

fun Error_text :: "error \<Rightarrow> string" where
  "Error_text (errors_New msg) = msg"
| "Error_text (errors_Wrap err msg) = msg @ '': '' @ Error_text err"

fun Cause :: "error \<Rightarrow> error" where
  "Cause (errors_New msg) = errors_New msg"
| "Cause (errors_Wrap err msg) = Cause err"

subsection \<open>Formatting of numbers and bytes (strconv, fmt, hexutil)\<close>

fun FormatUint :: "nat \<Rightarrow> nat \<Rightarrow> string" where
  "FormatUint i base =
     (if base < 2 \<or> i < base then [''0123456789abcdef'' ! i]
      else FormatUint (i div base) base @ [''0123456789abcdef'' ! (i mod base)])"

declare FormatUint.simps [simp del]

definition FormatInt :: "int \<Rightarrow> string" where
  "FormatInt i = (if i < 0 then ''-'' @ FormatUint (nat (- i)) 10 else FormatUint (nat i) 10)"

definition EncodeUint64 :: "64 word \<Rightarrow> string" where
  "EncodeUint64 i = ''0x'' @ FormatUint (unat i) 16"

definition hex_byte :: "char \<Rightarrow> string" where
  "hex_byte c = [''0123456789abcdef'' ! ((of_char c :: nat) div 16),
                 ''0123456789abcdef'' ! ((of_char c :: nat) mod 16)]"

definition Encode :: "string \<Rightarrow> string" where
  "Encode b = ''0x'' @ concat (map hex_byte b)"

subsection \<open>The data model\<close>

record Params =
  Txs :: "string list"
  BlockNumber :: string
  StateBlockNumber :: string
  BundleHash :: string

text \<open>
  A slice is a reference to its backing array. The parameter \<open>'p\<close> of a request is what
  stands for \<open>[]Params\<close>: the address of the backing array in the program's value
  (\<open>addr Request\<close>), and the array's contents in the value that the JSON encoder reads
  through the reference (\<open>Params list Request\<close>). No slice of this program is ever
  re-sliced or appended to, so the length of a slice is the length of its array.
\<close>

type_synonym addr = nat

record 'p Request =
  Jsonrpc :: string
  Id :: int
  Method :: string
  Params :: 'p

record Metadata =
  CoinbaseDiff :: string
  EthSentToCoinbase :: string
  GasFees :: string

record TxResult =
  Metadata :: Metadata
  FromAddress :: string
  GasPrice :: string
  TxHash :: string
  Error :: string
  Revert :: string
  GasUsed :: "64 word"

record Result =
  BundleGasPrice :: string
  BundleHash :: string
  Metadata :: Metadata
  Results :: "TxResult list"

record Error =
  Code :: int
  Message :: string

text \<open>A \<open>time.Time\<close> is an instant; no function of the package looks into one.\<close>

type_synonym Time = int

record BundleStats =
  IsSimulated :: bool
  IsHighPriority :: bool
  SimulatedAt :: Time
  SubmittedAt :: Time
  SentToMinersAt :: Time

record ResultBundleStats =
  Error :: Error
  Result :: BundleStats

record Response =
  Error :: Error
  Result :: Result

subsection \<open>Keys and addresses (crypto/ecdsa, go-ethereum)\<close>

record PublicKey =
  X :: int
  Y :: int

record PrivateKey =
  PublicKey :: PublicKey
  D :: int

text \<open>
  \<open>crypto.PublicKey\<close> is an interface; \<open>ecdsa.PrivateKey.Public\<close> always puts an
  \<open>*ecdsa.PublicKey\<close> in it.
\<close>

datatype crypto_PublicKey = ecdsa_PublicKey PublicKey | other_PublicKey

definition Public :: "PrivateKey \<Rightarrow> crypto_PublicKey" where
  "Public prv = ecdsa_PublicKey (PublicKey prv)"

text \<open>A \<open>common.Address\<close> is an array of bytes (20 of them in go-ethereum).\<close>

type_synonym Address = string

subsection \<open>HTTP requests and responses (net/http)\<close>

record http_Request =
  rq_Method :: string
  rq_URL :: string
  rq_Body :: string
  rq_Header :: "(string \<times> string) list"

text \<open>
  The body of a response is a reader. What the program does with it is to call
  \<open>ioutil.ReadAll\<close> on it, up to twice, and \<open>Close\<close>: the body is modelled by the results
  of the successive calls of \<open>ReadAll\<close> (the bytes read and the error, if any), and by the
  result of \<open>Close\<close>. A reader that is exhausted gives no bytes and no error.
\<close>

record http_Body =
  reads :: "(string \<times> error option) list"
  close_result :: "error option"

record http_Response =
  Status :: string
  StatusCode :: int
  Body :: http_Body

definition ReadAll :: "http_Body \<Rightarrow> (string \<times> error option) \<times> http_Body" where
  "ReadAll b = (case reads b of [] \<Rightarrow> (('''', None), b) | x # xs \<Rightarrow> (x, b\<lparr>reads := xs\<rparr>))"

definition Header_Add :: "http_Request \<Rightarrow> string \<Rightarrow> string \<Rightarrow> http_Request" where
  "Header_Add rq k v = rq\<lparr>rq_Header := rq_Header rq @ [(k, v)]\<rparr>"

subsection \<open>The libraries and the network, as parameters\<close>

text \<open>
  What the package calls and does not define: the JSON codec, the hash functions, the
  ECDSA signer, the derivation of an address, the parsing of a URL by \<open>http.NewRequest\<close>,
  and the round trip of \<open>http.Client.Do\<close>, whose answer may depend on the requests made
  before.
\<close>

record env =
  Marshal :: "(Params list) Request \<Rightarrow> error + string"
  Unmarshal_Response :: "string \<Rightarrow> error + Response"
  Unmarshal_ResultBundleStats :: "string \<Rightarrow> error + ResultBundleStats"
  Keccak256 :: "string \<Rightarrow> string"
  TextHash :: "string \<Rightarrow> string"
  Sign :: "string \<Rightarrow> PrivateKey \<Rightarrow> error + string"
  PubkeyToAddress :: "PublicKey \<Rightarrow> Address"
  url_Parse :: "string \<Rightarrow> error option"
  Do :: "http_Request list \<Rightarrow> http_Request \<Rightarrow> error + http_Response"

definition NewRequest :: "env \<Rightarrow> string \<Rightarrow> string \<Rightarrow> string \<Rightarrow> error + http_Request" where
  "NewRequest e method u body =
     (case url_Parse e u of
        Some err \<Rightarrow> Inl err
      | None \<Rightarrow> Inr \<lparr>rq_Method = method, rq_URL = u, rq_Body = body, rq_Header = []\<rparr>)"

text \<open>
  \<open>common.Address.Hex\<close>: the lower-case hexadecimal digits of the address after \<open>0x\<close>,
  where a letter is upper case when the matching half-byte of the Keccak hash of the digits
  is above 7 (EIP-55). A Keccak-256 hash has 64 half-bytes, more than the 40 digits of an
  address; digits beyond the hash are left as they are.
\<close>

definition nibbles :: "string \<Rightarrow> nat list" where
  "nibbles h = concat (map (\<lambda>c. [(of_char c :: nat) div 16, (of_char c :: nat) mod 16]) h)"

definition checksum_char :: "char \<Rightarrow> nat \<Rightarrow> char" where
  "checksum_char c hashByte =
     (if (of_char c :: nat) > of_char CHR ''9'' \<and> hashByte > 7
      then char_of ((of_char c :: nat) - 32) else c)"

fun checksum :: "string \<Rightarrow> nat list \<Rightarrow> string" where
  "checksum (c # cs) (h # hs) = checksum_char c h # checksum cs hs"
| "checksum cs hs = cs"

definition Hex :: "env \<Rightarrow> Address \<Rightarrow> string" where
  "Hex e a =
     (let buf = concat (map hex_byte a)
      in ''0x'' @ checksum buf (nibbles (Keccak256 e buf)))"

subsection \<open>The package: variables and functions\<close>

text \<open>
  The state of the program: the backing arrays of the slices, the three package-level
  request templates, and the requests handed to \<open>http.Client.Do\<close> so far, in order.
\<close>

record world =
  heap :: "addr \<Rightarrow> Params list"
  RequestSend :: "addr Request"
  RequestCall :: "addr Request"
  RequestBundleStats :: "addr Request"
  wire :: "http_Request list"

definition Params_zero :: Params where
  "Params_zero = \<lparr>Txs = [], BlockNumber = '''', StateBlockNumber = '''', BundleHash = ''''\<rparr>"

definition init_world :: world where
  "init_world =
     \<lparr>heap = (\<lambda>a. [])(0 := [Params_zero],
                         1 := [Params_zero\<lparr>StateBlockNumber := ''latest''\<rparr>],
                         2 := [Params_zero]),
      RequestSend = \<lparr>Jsonrpc = ''2.0'', Id = 1, Method = ''eth_sendBundle'', Params = 0\<rparr>,
      RequestCall = \<lparr>Jsonrpc = ''2.0'', Id = 1, Method = ''eth_callBundle'', Params = 1\<rparr>,
      RequestBundleStats =
        \<lparr>Jsonrpc = ''2.0'', Id = 1, Method = ''flashbots_getBundleStats'', Params = 2\<rparr>,
      wire = []\<rparr>"

text \<open>What a request holds when its slice is read through: the value that is encoded.\<close>

definition deref :: "world \<Rightarrow> addr Request \<Rightarrow> (Params list) Request" where
  "deref w r = \<lparr>Jsonrpc = Jsonrpc r, Id = Id r, Method = Method r, Params = heap w (Params r)\<rparr>"

text \<open>
  The assignment \<open>r.Params[0].f = v\<close>: it writes into the backing array of \<open>r.Params\<close>, and
  panics (\<open>None\<close>) when the slice is empty.
\<close>

definition set_Params0 :: "addr Request \<Rightarrow> (Params \<Rightarrow> Params) \<Rightarrow> world \<Rightarrow> world option" where
  "set_Params0 r f w =
     (case heap w (Params r) of
        [] \<Rightarrow> None
      | p # ps \<Rightarrow> Some (w\<lparr>heap := (heap w)(Params r := f p # ps)\<rparr>))"

record Flashbot =
  netID :: int
  prvKey :: "PrivateKey option"
  publicAddr :: "Address option"
  url :: string

definition relayURLDefault :: "int \<Rightarrow> error + string" where
  "relayURLDefault n =
     (if n = 1 then Inr ''https://relay.flashbots.net''
      else if n = 5 then Inr ''https://relay-goerli.flashbots.net''
      else Inl (errors_New (''network id not supported id:'' @ FormatInt n)))"

text \<open>\<open>SetKeys\<close> dereferences its argument: a nil key is a panic (\<open>None\<close>).\<close>

definition SetKeys :: "env \<Rightarrow> Flashbot \<Rightarrow> PrivateKey option \<Rightarrow> (Flashbot \<times> error option) option" where
  "SetKeys e self prv =
     (case prv of
        None \<Rightarrow> None
      | Some k \<Rightarrow>
          (case Public k of
             other_PublicKey \<Rightarrow> Some (self, Some (errors_New ''casting public key to ECDSA''))
           | ecdsa_PublicKey publicKeyECDSA \<Rightarrow>
               Some (self\<lparr>prvKey := Some k,
                           publicAddr := Some (PubkeyToAddress e publicKeyECDSA)\<rparr>, None)))"

definition New :: "env \<Rightarrow> int \<Rightarrow> PrivateKey option \<Rightarrow> string \<Rightarrow> (Flashbot \<times> error option) option" where
  "New e n prv u =
     (let fb = \<lparr>netID = n, prvKey = None, publicAddr = None, url = u\<rparr>
      in if prv \<noteq> None then SetKeys e fb prv else Some (fb, None))"

definition signPayload :: "env \<Rightarrow> Flashbot \<Rightarrow> string \<Rightarrow> error + string" where
  "signPayload e self payload =
     (case (prvKey self, publicAddr self) of
        (Some k, Some a) \<Rightarrow>
          (case Sign e (TextHash e (Encode (Keccak256 e payload))) k of
             Inl err \<Rightarrow> Inl (errors_Wrap err ''sign the payload'')
           | Inr signature \<Rightarrow> Inr (Hex e a @ '':'' @ Encode signature))
      | _ \<Rightarrow> Inl (errors_New ''private key is not set''))"

definition parseResp :: "env \<Rightarrow> string \<Rightarrow> 64 word \<Rightarrow> error + Response" where
  "parseResp e resp blockNum =
     (case Unmarshal_Response e resp of
        Inl err \<Rightarrow> Inl (errors_Wrap err ''unmarshal flashbot call response'')
      | Inr rr \<Rightarrow>
          (let results = Results (Response.Result rr) in
           if Code (Response.Error rr) \<noteq> 0
              \<or> (length results > 0 \<and> TxResult.Error (results ! 0) \<noteq> '''')
           then
             (let errStr = ''flashbot request returned an error:''
                     @ ''{Code:'' @ FormatInt (Code (Response.Error rr))
                     @ '' Message:'' @ Message (Response.Error rr) @ ''}''
                     @ '','' @ Message (Response.Error rr)
                     @ '' block:'' @ FormatUint (unat blockNum) 10
              in Inl (errors_New
                   (if length results > 0
                    then errStr @ '' Result:'' @ TxResult.Error (results ! 0)
                           @ '' , Revert:'' @ Revert (results ! 0)
                           @ '', GasUsed:'' @ FormatUint (unat (GasUsed (results ! 0))) 10
                    else errStr)))
           else Inr rr))"

definition req :: "env \<Rightarrow> Flashbot \<Rightarrow> addr Request \<Rightarrow> string \<Rightarrow> world \<Rightarrow> (error + string) \<times> world" where
  "req e self r u w =
     (case Marshal e (deref w r) of
        Inl err \<Rightarrow> (Inl (errors_Wrap err ''marshaling flashbot tx params''), w)
      | Inr payload \<Rightarrow>
     (case (if u = '''' then
              (case relayURLDefault (netID self) of
                 Inl err \<Rightarrow> Inl (errors_Wrap err ''get flashboat relay url'')
               | Inr u' \<Rightarrow> Inr u')
            else Inr u) of
        Inl err \<Rightarrow> (Inl err, w)
      | Inr u' \<Rightarrow>
     (case NewRequest e ''POST'' u' payload of
        Inl err \<Rightarrow> (Inl (errors_Wrap err ''creatting flashbot request''), w)
      | Inr rq0 \<Rightarrow>
     (case signPayload e self payload of
        Inl err \<Rightarrow> (Inl (errors_Wrap err ''signing flashbot request''), w)
      | Inr signedP \<Rightarrow>
     (let rq = Header_Add (Header_Add (Header_Add rq0
                 ''content-type'' ''application/json'')
                 ''Accept'' ''application/json'')
                 ''X-Flashbots-Signature'' signedP;
          w' = w\<lparr>wire := wire w @ [rq]\<rparr>
      in
     (case Do e (wire w) rq of
        Inl err \<Rightarrow> (Inl (errors_Wrap err ''flashbot request''), w')
      | Inr resp \<Rightarrow>
     (case ReadAll (Body resp) of
        ((res, Some err), body1) \<Rightarrow> (Inl (errors_Wrap err ''reading flashbot reply''), w')
      | ((res, None), body1) \<Rightarrow>
          if StatusCode resp sdiv 100 \<noteq> 2 then
            (case ReadAll body1 of
               ((rbody, Some err), body2) \<Rightarrow>
                 (Inl (errors_New (''bad response status '' @ Status resp)), w')
             | ((rbody, None), body2) \<Rightarrow>
                 (Inl (errors_New (''bad response resp status:'' @ Status resp
                        @ ''  respBody:'' @ rbody @ res
                        @ '' reqMethod:'' @ Method r)), w'))
          else
            (case close_result body1 of
               Some err \<Rightarrow> (Inl (errors_Wrap err ''closing flashboat reply body''), w')
             | None \<Rightarrow> (Inr res, w')))))))))"

definition SendBundle :: "env \<Rightarrow> Flashbot \<Rightarrow> string list \<Rightarrow> 64 word \<Rightarrow> world \<Rightarrow> ((error + Response) \<times> world) option" where
  "SendBundle e self txsHex blockNumber w =
     (let r = RequestSend w in
      case set_Params0 r (\<lambda>p. p\<lparr>BlockNumber := EncodeUint64 blockNumber\<rparr>) w of
        None \<Rightarrow> None
      | Some w1 \<Rightarrow>
     (case set_Params0 r (\<lambda>p. p\<lparr>Txs := txsHex\<rparr>) w1 of
        None \<Rightarrow> None
      | Some w2 \<Rightarrow>
     (case req e self r (url self) w2 of
        (Inl err, w3) \<Rightarrow> Some (Inl (errors_Wrap err ''flashbot send request''), w3)
      | (Inr resp, w3) \<Rightarrow> Some (parseResp e resp blockNumber, w3))))"

definition CallBundle :: "env \<Rightarrow> Flashbot \<Rightarrow> string list \<Rightarrow> world \<Rightarrow> ((error + Response) \<times> world) option" where
  "CallBundle e self txsHex w =
     (let r = RequestCall w; blockDummy = (100000000000000 :: 64 word) in
      case set_Params0 r (\<lambda>p. p\<lparr>Txs := txsHex\<rparr>) w of
        None \<Rightarrow> None
      | Some w1 \<Rightarrow>
     (case set_Params0 r (\<lambda>p. p\<lparr>BlockNumber := EncodeUint64 blockDummy\<rparr>) w1 of
        None \<Rightarrow> None
      | Some w2 \<Rightarrow>
     (case req e self r (url self) w2 of
        (Inl err, w3) \<Rightarrow> Some (Inl (errors_Wrap err ''flashbot call request''), w3)
      | (Inr resp, w3) \<Rightarrow> Some (parseResp e resp blockDummy, w3))))"

definition GetBundleStats :: "env \<Rightarrow> Flashbot \<Rightarrow> string \<Rightarrow> 64 word \<Rightarrow> world \<Rightarrow> ((error + ResultBundleStats) \<times> world) option" where
  "GetBundleStats e self bundleHash blockNumber w =
     (let r = RequestBundleStats w in
      case set_Params0 r (\<lambda>p. p\<lparr>Params.BundleHash := bundleHash\<rparr>) w of
        None \<Rightarrow> None
      | Some w1 \<Rightarrow>
     (case set_Params0 r (\<lambda>p. p\<lparr>BlockNumber := EncodeUint64 blockNumber\<rparr>) w1 of
        None \<Rightarrow> None
      | Some w2 \<Rightarrow>
     (case req e self r (url self) w2 of
        (Inl err, w3) \<Rightarrow> Some (Inl (errors_Wrap err ''flashbot call request''), w3)
      | (Inr resp, w3) \<Rightarrow>
          (case Unmarshal_ResultBundleStats e resp of
             Inl err \<Rightarrow>
               Some (Inl (errors_Wrap err ''unmarshal flashbot bundle stats response''), w3)
           | Inr rr \<Rightarrow>
               if Code (ResultBundleStats.Error rr) \<noteq> 0
               then Some (Inl (errors_New
                      (''flashbot request returned an error:''
                        @ ''{Code:'' @ FormatInt (Code (ResultBundleStats.Error rr))
                        @ '' Message:'' @ Message (ResultBundleStats.Error rr) @ ''}''
                        @ '','' @ Message (ResultBundleStats.Error rr))), w3)
               else Some (Inr rr, w3)))))"

subsection \<open>Test doubles\<close>

text \<open>
  Stand-ins for the libraries and the relay, on which the theorems below are run: an
  encoder, hashes of the right length, a signer that refuses the zero key, a URL parser
  that refuses a space, and a relay that cannot be reached.
\<close>

definition mock_env :: env where
  "mock_env =
     \<lparr>Marshal = (\<lambda>r. Inr (Method r @ concat (map BlockNumber (Params r)))),
      Unmarshal_Response = (\<lambda>s. Inl (errors_New ''unexpected end of JSON input'')),
      Unmarshal_ResultBundleStats = (\<lambda>s. Inl (errors_New ''unexpected end of JSON input'')),
      Keccak256 = (\<lambda>s. ''0123456789abcdefghijklmnopqrstuv''),
      TextHash = (\<lambda>s. ''The quick brown fox jumps over t''),
      Sign = (\<lambda>h k. if D k = 0 then Inl (errors_New ''invalid private key'')
                     else Inr ''sig''),
      PubkeyToAddress = (\<lambda>p. ''addressaddressaddres''),
      url_Parse = (\<lambda>u. if CHR '' '' \<in> set u then Some (errors_New ''invalid URL'') else None),
      Do = (\<lambda>sent rq. Inl (errors_New ''connection refused''))\<rparr>"

definition Metadata_zero :: Metadata where
  "Metadata_zero = \<lparr>CoinbaseDiff = '''', EthSentToCoinbase = '''', GasFees = ''''\<rparr>"


definition Response_zero :: Response where
  "Response_zero =
     \<lparr>Response.Error = \<lparr>Code = 0, Message = ''''\<rparr>,
      Response.Result = \<lparr>BundleGasPrice = '''', Result.BundleHash = '''',
        Result.Metadata = Metadata_zero, Results = []\<rparr>\<rparr>"

definition Response_rejected :: Response where
  "Response_rejected =
     Response_zero\<lparr>Response.Error := \<lparr>Code = - 32000, Message = ''bundle rejected''\<rparr>\<rparr>"


section \<open>Properties\<close>

subsection \<open>Evaluation of the formatting functions\<close>

lemma FormatUint_0 [simp]: "FormatUint 0 10 = ''0''"
  by (simp add: FormatUint.simps)

lemma FormatInt_0 [simp]: "FormatInt 0 = ''0''"
  by (simp add: FormatInt_def)

lemma FormatUint_100: "FormatUint 100 10 = ''100''"
  by (simp add: FormatUint.simps)


lemma FormatInt_m32000: "FormatInt (- 32000) = ''-32000''"
  by (simp add: FormatInt_def FormatUint.simps)

lemma FormatInt_9999: "FormatInt 9999 = ''9999''"
  by (simp add: FormatInt_def FormatUint.simps)

lemma EncodeUint64_100: "EncodeUint64 100 = ''0x64''"
  by (simp add: EncodeUint64_def FormatUint.simps)

lemma EncodeUint64_blockDummy: "EncodeUint64 100000000000000 = ''0x5af3107a4000''"
  by (simp add: EncodeUint64_def FormatUint.simps)

subsection \<open>The classification of a decoded response\<close>

text \<open>
  C8. A decoded response whose top-level error code is 0 and whose sequence of transaction
  results is empty is a success: \<open>parseResp\<close> returns the whole decoded response and no
  error.
\<close>

theorem parseResp_success:
  assumes "Unmarshal_Response e resp = Inr rr"
    and "Code (Response.Error rr) = 0"
    and "Results (Response.Result rr) = []"
  shows "parseResp e resp blockNum = Inr rr"
  using assms by (simp add: parseResp_def)

theorem parseResp_success_witness:
  "parseResp (mock_env\<lparr>Unmarshal_Response := (\<lambda>s. Inr Response_zero)\<rparr>) ''{}'' 100
     = Inr Response_zero"
proof -
  have h1: "Unmarshal_Response (mock_env\<lparr>Unmarshal_Response := (\<lambda>s. Inr Response_zero)\<rparr>)
      ''{}'' = Inr Response_zero"
    by simp
  have h2: "Code (Response.Error Response_zero) = 0"
    by (simp add: Response_zero_def)
  have h3: "Results (Response.Result Response_zero) = []"
    by (simp add: Response_zero_def)
  show ?thesis
    by (rule parseResp_success [OF h1 h2 h3])
qed

text \<open>
  C7. A decoded response whose top-level error code is not 0 makes \<open>parseResp\<close> fail,
  whatever the sequence of transaction results holds: the call returns no response, and
  the error starts with the relay's code and message and the block number. (The text goes
  on with the first transaction result when there is one; the error is of the one kind
  that \<open>errors.New\<close> makes.)
\<close>

theorem parseResp_relay_error:
  assumes "Unmarshal_Response e resp = Inr rr"
    and "Code (Response.Error rr) \<noteq> 0"
  shows "parseResp e resp blockNum =
     Inl (errors_New
       (''flashbot request returned an error:{Code:'' @ FormatInt (Code (Response.Error rr))
         @ '' Message:'' @ Message (Response.Error rr) @ ''},'' @ Message (Response.Error rr)
         @ '' block:'' @ FormatUint (unat blockNum) 10
         @ (case Results (Response.Result rr) of
              [] \<Rightarrow> ''''
            | t # ts \<Rightarrow> '' Result:'' @ TxResult.Error t @ '' , Revert:'' @ Revert t
                 @ '', GasUsed:'' @ FormatUint (unat (GasUsed t)) 10)))"
proof (cases "Results (Response.Result rr)")
  case Nil
  with assms show ?thesis by (simp add: parseResp_def)
next
  case (Cons t ts)
  with assms show ?thesis by (simp add: parseResp_def)
qed

theorem parseResp_relay_error_witness:
  "parseResp (mock_env\<lparr>Unmarshal_Response := (\<lambda>s. Inr Response_rejected)\<rparr>) ''{}'' 100
     = Inl (errors_New (''flashbot request returned an error:''
          @ ''{Code:-32000 Message:bundle rejected},bundle rejected block:100''))"
proof -
  have h1: "Unmarshal_Response (mock_env\<lparr>Unmarshal_Response := (\<lambda>s. Inr Response_rejected)\<rparr>)
      ''{}'' = Inr Response_rejected"
    by simp
  have h2: "Code (Response.Error Response_rejected) \<noteq> 0"
    by (simp add: Response_rejected_def)
  have h3: "Results (Response.Result Response_rejected) = []"
    by (simp add: Response_rejected_def Response_zero_def)
  have h4: "Message (Response.Error Response_rejected) = ''bundle rejected''"
    "Code (Response.Error Response_rejected) = - 32000"
    by (simp_all add: Response_rejected_def)
  show ?thesis
    using parseResp_relay_error [OF h1 h2, of 100]
    by (simp add: h3 h4 FormatInt_m32000 FormatUint_100)
qed



end
